theory Spec2Isabelle
  imports Main "HOL-Library.Sublist"
begin

text \<open>
  A model of \<^verbatim>\<open>src/completion.ts\<close>, the completion engine for the Structurizr DSL and for
  the Kotlin-like grammar. The functions of the file are translated one by one, under
  their names. What the file imports (the generated lexers and parsers, the antlr4-c3
  completion core and symbol table, the symbol-table visitor, the caller's mapper from a
  caret to a token position) enters as parameters. A function that can throw returns a
  sum, with the error on the left.
\<close>

section \<open>JavaScript strings\<close>

text \<open>
  A JavaScript string is a sequence of UTF-16 code units. The symbol names, the
  vocabulary names and the typed text of the translators are modelled as strings whose
  code units are below 256 (ASCII and Latin-1), one \<^typ>\<open>char\<close> per code unit. On that
  range \<^verbatim>\<open>String.prototype.trim\<close> strips the code units 9 to 13, 32 and 160, and
  \<^verbatim>\<open>String.prototype.toLowerCase\<close> works code unit by code unit: it adds 32 to
  \<^verbatim>\<open>A\<close>..\<^verbatim>\<open>Z\<close> and to 192..222 except 215 (the multiplication sign), and leaves the rest.
  The prefix filter is modelled a second time over all UTF-16 strings, further down; the
  two models agree on the strings they share.
\<close>

definition isWhiteSpace :: "char \<Rightarrow> bool" where
  "isWhiteSpace c = (of_char c \<in> {9, 10, 11, 12, 13, 32, 160 :: nat})"

definition trim :: "string \<Rightarrow> string" where
  "trim s = rev (dropWhile isWhiteSpace (rev (dropWhile isWhiteSpace s)))"

definition toLowerCaseChar :: "char \<Rightarrow> char" where
  "toLowerCaseChar c =
     (let n = (of_char c :: nat)
      in if (65 \<le> n \<and> n \<le> 90) \<or> (192 \<le> n \<and> n \<le> 222 \<and> n \<noteq> 215)
         then char_of (n + 32) else c)"

definition toLowerCase :: "string \<Rightarrow> string" where
  "toLowerCase s = map toLowerCaseChar s"

definition startsWith :: "'a list \<Rightarrow> 'a list \<Rightarrow> bool" where
  "startsWith s searchString = (take (length searchString) s = searchString)"

section \<open>The prefix filter\<close>

text \<open>\<^verbatim>\<open>filterTokens_startsWith\<close> (completion.ts, lines 52 to 58).\<close>

definition filterTokens_startsWith :: "string \<Rightarrow> string list \<Rightarrow> string list" where
  "filterTokens_startsWith text candidates =
     (if length (trim text) = 0 then candidates
      else filter (\<lambda>c. startsWith (toLowerCase c) (toLowerCase text)) candidates)"

text \<open>
  The words of the specification, to compare with the code: two code units are equal
  up to case, and a candidate starts with a prefix case-insensitively when it is at least
  as long as the prefix and agrees with it, position by position, up to case.
\<close>

definition equalIgnoringCase :: "char \<Rightarrow> char \<Rightarrow> bool" where
  "equalIgnoringCase a b = (toLowerCaseChar a = toLowerCaseChar b)"

definition startsWithIgnoringCase :: "string \<Rightarrow> string \<Rightarrow> bool" where
  "startsWithIgnoringCase c pre =
     (length pre \<le> length c \<and> list_all2 equalIgnoringCase (take (length pre) c) pre)"

text \<open>A candidate passes the filter for a prefix: the prefix is blank, or the candidate
  starts with it case-insensitively.\<close>

definition passesFilter :: "string \<Rightarrow> string \<Rightarrow> bool" where
  "passesFilter pre c = (list_all isWhiteSpace pre \<or> startsWithIgnoringCase c pre)"

section \<open>The prefix filter over UTF-16 strings\<close>

text \<open>
  A string as the sequence of its code units, each an integer from 0 to 65535, and the
  code units of a string of the range above.
\<close>

type_synonym utf16 = "int list"

definition utf16 :: "string \<Rightarrow> utf16" where
  "utf16 s = map of_char s"

text \<open>
  The code units that \<^verbatim>\<open>String.prototype.trim\<close> strips: the white space and the line
  terminators of ECMAScript (tab, line feed, vertical tab, form feed, carriage return,
  the space separators of Unicode, the line and paragraph separators, and the byte order
  mark).
\<close>

definition isWhiteSpace_utf16 :: "int \<Rightarrow> bool" where
  "isWhiteSpace_utf16 u =
     (u \<in> set [0x0009, 0x000A, 0x000B, 0x000C, 0x000D, 0x0020, 0x00A0, 0x1680] \<or>
      (0x2000 \<le> u \<and> u \<le> 0x200A) \<or>
      u \<in> set [0x2028, 0x2029, 0x202F, 0x205F, 0x3000, 0xFEFF])"

definition trim_utf16 :: "utf16 \<Rightarrow> utf16" where
  "trim_utf16 s = rev (dropWhile isWhiteSpace_utf16 (rev (dropWhile isWhiteSpace_utf16 s)))"

text \<open>
  \<^verbatim>\<open>filterTokens_startsWith\<close> (lines 52 to 58) over UTF-16 strings. The lower-casing of
  a string needs the case tables of Unicode, which are not part of the sources:
  \<^verbatim>\<open>String.prototype.toLowerCase\<close> is a parameter.
\<close>

definition filterTokens_startsWith_utf16 ::
  "(utf16 \<Rightarrow> utf16) \<Rightarrow> utf16 \<Rightarrow> utf16 list \<Rightarrow> utf16 list" where
  "filterTokens_startsWith_utf16 lowerCase text candidates =
     (if length (trim_utf16 text) = 0 then candidates
      else filter (\<lambda>c. startsWith (lowerCase c) (lowerCase text)) candidates)"


text \<open>
  \<^verbatim>\<open>String.prototype.toLowerCase\<close> on the strings whose code units are in Basic Latin, in
  the Latin-1 Supplement or one of the three sigmas of Greek (capital 0x3A3, final 0x3C2,
  small 0x3C3), following the Unicode default case conversion: each code unit takes its
  lower-case form, except that a capital sigma becomes a final sigma when a cased letter
  stands before it, case-ignorable code units apart, and none stands after it in the same
  way. The cased and the case-ignorable code units are those of that range.
\<close>

definition toLowerCaseUnit :: "int \<Rightarrow> int" where
  "toLowerCaseUnit u =
     (if (0x41 \<le> u \<and> u \<le> 0x5A) \<or> (0xC0 \<le> u \<and> u \<le> 0xDE \<and> u \<noteq> 0xD7) then u + 0x20
      else if u = 0x3A3 then 0x3C3
      else u)"

definition isCased :: "int \<Rightarrow> bool" where
  "isCased u =
     ((0x41 \<le> u \<and> u \<le> 0x5A) \<or> (0x61 \<le> u \<and> u \<le> 0x7A) \<or>
      u \<in> set [0xAA, 0xB5, 0xBA] \<or>
      (0xC0 \<le> u \<and> u \<le> 0xFF \<and> u \<noteq> 0xD7 \<and> u \<noteq> 0xF7) \<or>
      u \<in> set [0x3A3, 0x3C2, 0x3C3])"

definition isCaseIgnorable :: "int \<Rightarrow> bool" where
  "isCaseIgnorable u =
     (u \<in> set [0x27, 0x2E, 0x3A, 0x5E, 0x60, 0xA8, 0xAD, 0xAF, 0xB4, 0xB7, 0xB8])"

definition finalSigma :: "utf16 \<Rightarrow> utf16 \<Rightarrow> bool" where
  "finalSigma seen rest =
     ((case dropWhile isCaseIgnorable seen of [] \<Rightarrow> False | u # _ \<Rightarrow> isCased u) \<and>
      \<not> (case dropWhile isCaseIgnorable rest of [] \<Rightarrow> False | u # _ \<Rightarrow> isCased u))"

text \<open>
  The lower-casing of the rest of a string, given the code units already passed, the
  nearest first.
\<close>

fun lowerFrom :: "utf16 \<Rightarrow> utf16 \<Rightarrow> utf16" where
  "lowerFrom seen [] = []"
| "lowerFrom seen (u # rest) =
     (if u = 0x3A3 \<and> finalSigma seen rest then 0x3C2 else toLowerCaseUnit u)
     # lowerFrom (u # seen) rest"

definition toLowerCase_utf16 :: "utf16 \<Rightarrow> utf16" where
  "toLowerCase_utf16 s = lowerFrom [] s"

section \<open>Parse trees and symbols\<close>

text \<open>
  The code reads three things of a parse-tree node: its class (\<^verbatim>\<open>instanceof\<close>), the
  token type of a terminal node (\<^verbatim>\<open>symbol.type\<close>) and its \<^verbatim>\<open>parent\<close>. A node is
  modelled with its identity and the chain of its ancestors; the chain is finite, the
  root being the node without a parent. A reference that may be \<^verbatim>\<open>undefined\<close> is an
  \<^typ>\<open>'a option\<close>.
\<close>

datatype error = TypeError

datatype nodeClass = VariableReadContext | TerminalNode (symbol_type: int) | RuleContext

datatype ParseTree =
  ParseTree (nodeId: nat) (nodeClass: nodeClass) (parent: "ParseTree option")

text \<open>
  A symbol of the antlr4-c3 symbol table, again with the chain of its parents. The class
  records what \<^verbatim>\<open>instanceof VariableSymbol\<close> and \<^verbatim>\<open>instanceof ScopedSymbol\<close> answer
  (the symbol table itself is a scoped symbol).
\<close>

datatype symbolClass = VariableSymbol | ScopedSymbol | OtherSymbol

datatype Symbol =
  Symbol (symbolId: nat) (name: string) (symbolClass: symbolClass)
    (symbolParent: "Symbol option")

text \<open>
  The two methods of the antlr4-c3 library that the code calls, taken as parameters,
  receiver first: \<^verbatim>\<open>s.getAllSymbolsSync(type, localOnly)\<close> and
  \<^verbatim>\<open>table.symbolWithContextSync(context)\<close>.
\<close>

record antlr4_c3 =
  getAllSymbolsSync :: "Symbol \<Rightarrow> symbolClass \<Rightarrow> bool \<Rightarrow> Symbol list"
  symbolWithContextSync :: "Symbol \<Rightarrow> ParseTree \<Rightarrow> Symbol option"

text \<open>\<^verbatim>\<open>getScope\<close> (lines 12 to 22).\<close>

fun getScope :: "antlr4_c3 \<Rightarrow> ParseTree option \<Rightarrow> Symbol \<Rightarrow> Symbol option" where
  "getScope c3 None symbolTable = None"
| "getScope c3 (Some (ParseTree i cls up)) symbolTable =
     (case symbolWithContextSync c3 symbolTable (ParseTree i cls up) of
        Some scope \<Rightarrow> Some scope
      | None \<Rightarrow> getScope c3 up symbolTable)"

text \<open>A node followed by its ancestors, nearest first: the nodes \<^verbatim>\<open>getScope\<close> can visit.\<close>

fun ancestry :: "ParseTree option \<Rightarrow> ParseTree list" where
  "ancestry None = []"
| "ancestry (Some (ParseTree i cls up)) = ParseTree i cls up # ancestry up"

text \<open>
  The loop of lines 26 to 29: starting from a parent, climb while the symbol is there and
  is not a scoped symbol.
\<close>

fun enclosingScope :: "Symbol option \<Rightarrow> Symbol option" where
  "enclosingScope None = None"
| "enclosingScope (Some (Symbol i n cls up)) =
     (if cls \<noteq> ScopedSymbol then enclosingScope up else Some (Symbol i n cls up))"

text \<open>\<^verbatim>\<open>getAllSymbolsOfType\<close> (lines 24 to 34).\<close>

function getAllSymbolsOfType :: "antlr4_c3 \<Rightarrow> Symbol \<Rightarrow> symbolClass \<Rightarrow> Symbol list" where
  "getAllSymbolsOfType c3 scope type =
     (let symbols = getAllSymbolsSync c3 scope type True
      in case enclosingScope (symbolParent scope) of
           Some p \<Rightarrow> symbols @ getAllSymbolsOfType c3 p type
         | None \<Rightarrow> symbols)"
  by pat_completeness auto
termination
proof (relation "measure (\<lambda>(c3, scope, type). size scope)")
  show "wf (measure (\<lambda>(c3, scope, type). size scope))" by simp
next
  fix c3 :: antlr4_c3 and scope :: Symbol and type :: symbolClass
    and symbols :: "Symbol list" and p :: Symbol
  have climb: "size q < size_option size up" if "enclosingScope up = Some q" for up q
    using that by (induction up rule: enclosingScope.induct) (auto split: if_splits)
  assume "enclosingScope (symbolParent scope) = Some p"
  then have "size p < size_option size (symbolParent scope)"
    by (rule climb)
  also have "\<dots> < size scope" by (cases scope) simp
  finally show "((c3, p, type), (c3, scope, type)) \<in> measure (\<lambda>(c3, scope, type). size scope)"
    by simp
qed

declare getAllSymbolsOfType.simps [simp del]

text \<open>
  The words of the specification about scopes, to compare with the code. The ancestors of
  a symbol are its parent, the parent of its parent, and so on to the outermost one. The
  scopes that enclose a symbol are the scoped symbols among its ancestors, nearest first;
  the last of them is the global scope. A symbol is declared in the scope that is its
  parent; the symbols of a kind declared in a scope are those of a table that have the
  scope as parent and are of the kind.
\<close>

fun symbolAncestry :: "Symbol option \<Rightarrow> Symbol list" where
  "symbolAncestry None = []"
| "symbolAncestry (Some (Symbol i n cls up)) = Symbol i n cls up # symbolAncestry up"

definition enclosingScopes :: "Symbol \<Rightarrow> Symbol list" where
  "enclosingScopes s =
     filter (\<lambda>a. symbolClass a = ScopedSymbol) (symbolAncestry (symbolParent s))"

definition declaredIn :: "Symbol list \<Rightarrow> Symbol \<Rightarrow> symbolClass \<Rightarrow> Symbol list" where
  "declaredIn table scope kind =
     filter (\<lambda>x. symbolParent x = Some scope \<and> symbolClass x = kind) table"

section \<open>Token positions, candidates and parsers\<close>

text \<open>
  The token position computed by the caller's mapper (types.ts, not among the sources):
  the token index, the context node and the text typed so far. The context is a
  reference and may be absent.
\<close>

record TokenPosition =
  index :: int
  "context" :: "ParseTree option"
  "text" :: string

record CaretPosition =
  line :: int
  column :: int

text \<open>
  What \<^verbatim>\<open>CodeCompletionCore.collectCandidates\<close> returns: two JavaScript maps, kept as
  association lists in insertion order, the order in which \<^verbatim>\<open>forEach\<close> visits them.
\<close>

record CandidatesCollection =
  tokens :: "(int \<times> int list) list"
  rules :: "(int \<times> int list) list"

definition has :: "(int \<times> int list) list \<Rightarrow> int \<Rightarrow> bool" where
  "has m k = (k \<in> set (map fst m))"

text \<open>
  A parser instance, as far as the code uses it: the vocabulary's symbolic names
  (\<^verbatim>\<open>undefined\<close> is \<^const>\<open>None\<close>) and the completion core built on the parser, a
  function of the ignored tokens, the preferred rules and the token index.
\<close>

record Parser =
  getSymbolicName :: "int \<Rightarrow> string option"
  collectCandidates :: "int list \<Rightarrow> int list \<Rightarrow> int \<Rightarrow> CandidatesCollection"

text \<open>
  The token types and rule indices of the two generated parsers are constants of files
  that are not among the sources; they are parameters of the model.
\<close>

record StructurizrParser =
  NL :: int
  ID :: int

record KotlinParser =
  FILE :: int
  BinLiteral :: int
  BooleanLiteral :: int
  CharacterLiteral :: int
  DoubleLiteral :: int
  HexLiteral :: int
  IntegerLiteral :: int
  LongLiteral :: int
  NullLiteral :: int
  RealLiteral :: int
  DelimitedComment :: int
  LineComment :: int
  QUOTE_OPEN :: int
  QUOTE_CLOSE :: int
  TRIPLE_QUOTE_OPEN :: int
  LabelDefinition :: int
  LabelReference :: int
  Identifier :: int
  NOT_IN :: int
  NOT_IS :: int
  RULE_variableRead :: int
  RULE_suggestArgument :: int

section \<open>Suggesting variables\<close>

text \<open>
  Lines 37 to 44 of \<^verbatim>\<open>suggestVariables\<close>: the symbols of the scope at the caret, or of
  the whole table when no scoped symbol is found.
\<close>

definition visibleSymbols :: "antlr4_c3 \<Rightarrow> Symbol \<Rightarrow> TokenPosition \<Rightarrow> Symbol list" where
  "visibleSymbols c3 symbolTable position =
     (case getScope c3 (context position) symbolTable of
        Some scope \<Rightarrow>
          if symbolClass scope = ScopedSymbol
          then getAllSymbolsOfType c3 scope VariableSymbol
          else getAllSymbolsSync c3 symbolTable VariableSymbol False
      | None \<Rightarrow> getAllSymbolsSync c3 symbolTable VariableSymbol False)"

text \<open>
  The loop of lines 45 to 48. Its condition reads \<^verbatim>\<open>variable.parent\<close>, which throws a
  \<^verbatim>\<open>TypeError\<close> when \<^verbatim>\<open>variable\<close> is \<^verbatim>\<open>undefined\<close> (an \<^verbatim>\<open>undefined\<close> value is not an
  instance of \<^verbatim>\<open>VariableReadContext\<close>, so the second operand is evaluated).
\<close>

fun variableWalk :: "ParseTree option \<Rightarrow> error + ParseTree option" where
  "variableWalk None = Inl TypeError"
| "variableWalk (Some (ParseTree i cls up)) =
     (if cls \<noteq> VariableReadContext \<and> up \<noteq> None then variableWalk up
      else Inr (Some (ParseTree i cls up)))"

text \<open>
  \<^verbatim>\<open>suggestVariables\<close> (lines 36 to 50). The active matcher \<^verbatim>\<open>filterTokens\<close> is a
  module variable that \<^verbatim>\<open>setTokenMatcher\<close> replaces; it is passed explicitly.
\<close>

definition suggestVariables ::
  "antlr4_c3 \<Rightarrow> (string \<Rightarrow> string list \<Rightarrow> string list) \<Rightarrow> Symbol \<Rightarrow> TokenPosition
     \<Rightarrow> error + string list" where
  "suggestVariables c3 filterTokens symbolTable position =
     (let symbols = visibleSymbols c3 symbolTable position
      in case variableWalk (context position) of
           Inl e \<Rightarrow> Inl e
         | Inr variable \<Rightarrow>
             Inr (filterTokens (if variable \<noteq> None then text position else [])
                    (map name symbols)))"

section \<open>The translator of the DSL grammar\<close>

text \<open>The ignored token types of lines 68 and 69.\<close>

definition ignoredS :: "StructurizrParser \<Rightarrow> int list" where
  "ignoredS S = [NL S]"

text \<open>
  Lines 67 to 75: the completion core of the parser, with the ignored tokens set and no
  preferred rule, asked for the candidates at the token index.
\<close>

definition candidatesS :: "StructurizrParser \<Rightarrow> Parser \<Rightarrow> TokenPosition \<Rightarrow> CandidatesCollection" where
  "candidatesS S parser position = collectCandidates parser (ignoredS S) [] (index position)"

text \<open>
  The \<^verbatim>\<open>forEach\<close> of lines 79 to 92, pushing onto \<^verbatim>\<open>tokens\<close>. A symbolic name is used
  when it is truthy: present and not the empty string.
\<close>

definition tokensS :: "StructurizrParser \<Rightarrow> Parser \<Rightarrow> CandidatesCollection \<Rightarrow> string list" where
  "tokensS S parser candidates =
     foldl (\<lambda>pushed (k, _).
              if k = ID S then pushed
              else (case getSymbolicName parser k of
                      Some symbolicName \<Rightarrow>
                        if symbolicName \<noteq> [] then pushed @ [toLowerCase symbolicName]
                        else pushed
                    | None \<Rightarrow> pushed))
       [] (tokens candidates)"

text \<open>What one call of that callback pushes for the token type \<open>k\<close>.\<close>

definition pushedS :: "StructurizrParser \<Rightarrow> Parser \<Rightarrow> int \<Rightarrow> string list" where
  "pushedS S parser k =
     (if k = ID S then []
      else (case getSymbolicName parser k of
              Some symbolicName \<Rightarrow> if symbolicName \<noteq> [] then [toLowerCase symbolicName] else []
            | None \<Rightarrow> []))"

text \<open>Lines 93 to 95 and 138 to 140.\<close>

definition isIgnoredToken :: "int list \<Rightarrow> TokenPosition \<Rightarrow> bool" where
  "isIgnoredToken ignored position =
     (case context position of
        Some node \<Rightarrow>
          (case nodeClass node of
             TerminalNode type \<Rightarrow> type \<in> set ignored
           | _ \<Rightarrow> False)
      | None \<Rightarrow> False)"

text \<open>Lines 96 and 141.\<close>

definition textToMatch :: "int list \<Rightarrow> TokenPosition \<Rightarrow> string" where
  "textToMatch ignored position = (if isIgnoredToken ignored position then [] else text position)"

text \<open>\<^verbatim>\<open>getSuggestionsForParseTree\<close> (lines 65 to 99).\<close>

definition getSuggestionsForParseTree ::
  "StructurizrParser \<Rightarrow> (string \<Rightarrow> string list \<Rightarrow> string list) \<Rightarrow> Parser \<Rightarrow> ParseTree
     \<Rightarrow> (unit \<Rightarrow> Symbol) \<Rightarrow> TokenPosition \<Rightarrow> string list" where
  "getSuggestionsForParseTree S filterTokens parser parseTree symbolTableFn position =
     (let ignored = ignoredS S;
          candidates = candidatesS S parser position;
          toMatch = textToMatch ignored position
      in filterTokens toMatch (tokensS S parser candidates))"

section \<open>The translator of the Kotlin-like grammar\<close>

text \<open>
  The ignored token types of lines 106 to 113. \<^verbatim>\<open>Array.from(Array(FILE).keys())\<close> is the
  list of the integers from 0 to \<^verbatim>\<open>FILE - 1\<close>; \<^verbatim>\<open>FILE\<close> is a token type of the generated
  lexer, a positive integer.
\<close>

definition ignoredK :: "KotlinParser \<Rightarrow> int list" where
  "ignoredK K =
     [0 .. FILE K - 1]
     @ [BinLiteral K, BooleanLiteral K, CharacterLiteral K, DoubleLiteral K,
        HexLiteral K, IntegerLiteral K, LongLiteral K, NullLiteral K,
        RealLiteral K,
        DelimitedComment K, LineComment K]
     @ [QUOTE_OPEN K, QUOTE_CLOSE K, TRIPLE_QUOTE_OPEN K]
     @ [LabelDefinition K, LabelReference K]"

text \<open>
  Lines 103 to 116: the completion core with the ignored tokens and the two preferred
  rules set, asked for the candidates at the token index.
\<close>

definition candidatesK :: "KotlinParser \<Rightarrow> Parser \<Rightarrow> TokenPosition \<Rightarrow> CandidatesCollection" where
  "candidatesK K parser position =
     collectCandidates parser (ignoredK K)
       [RULE_variableRead K, RULE_suggestArgument K] (index position)"

text \<open>The condition of lines 119 and 120.\<close>

definition identifierPath :: "KotlinParser \<Rightarrow> CandidatesCollection \<Rightarrow> bool" where
  "identifierPath K candidates =
     (has (rules candidates) (RULE_variableRead K) \<or>
      has (rules candidates) (RULE_suggestArgument K))"

text \<open>The \<^verbatim>\<open>forEach\<close> of lines 124 to 137.\<close>

definition tokensK :: "KotlinParser \<Rightarrow> Parser \<Rightarrow> CandidatesCollection \<Rightarrow> string list" where
  "tokensK K parser candidates =
     foldl (\<lambda>pushed (k, _).
              if k = Identifier K then pushed
              else if k = NOT_IN K then pushed @ [''!in'']
              else if k = NOT_IS K then pushed @ [''!is'']
              else (case getSymbolicName parser k of
                      Some symbolicName \<Rightarrow>
                        if symbolicName \<noteq> [] then pushed @ [toLowerCase symbolicName]
                        else pushed
                    | None \<Rightarrow> pushed))
       [] (tokens candidates)"


text \<open>\<^verbatim>\<open>getSuggestionsForParseTreeK\<close> (lines 101 to 144).\<close>

definition getSuggestionsForParseTreeK ::
  "KotlinParser \<Rightarrow> antlr4_c3 \<Rightarrow> (string \<Rightarrow> string list \<Rightarrow> string list) \<Rightarrow> Parser
     \<Rightarrow> ParseTree \<Rightarrow> (unit \<Rightarrow> Symbol) \<Rightarrow> TokenPosition \<Rightarrow> error + string list" where
  "getSuggestionsForParseTreeK K c3 filterTokens parser parseTree symbolTableFn position =
     (let ignored = ignoredK K;
          candidates = candidatesK K parser position;
          suggested =
            (if identifierPath K candidates
             then suggestVariables c3 filterTokens (symbolTableFn ()) position
             else Inr []);
          toMatch = textToMatch ignored position
      in case suggested of
           Inl e \<Rightarrow> Inl e
         | Inr completions \<Rightarrow>
             Inr (completions @ filterTokens toMatch (tokensK K parser candidates)))"

section \<open>The two entry points\<close>

text \<open>
  \<^verbatim>\<open>getSuggestions\<close> (lines 146 to 161) and \<^verbatim>\<open>getSuggestionsK\<close> (lines 163 to 178).
  Lexing and parsing (the token stream, the parser and the parse tree of a source text)
  and the symbol-table visitor are collaborators, taken as parameters; the symbol table is
  built by the function handed to the translator, when the translator calls it.
\<close>

definition getSuggestions ::
  "StructurizrParser \<Rightarrow> (string \<Rightarrow> string list \<Rightarrow> string list)
     \<Rightarrow> (string \<Rightarrow> 'ts \<times> Parser \<times> ParseTree) \<Rightarrow> (ParseTree \<Rightarrow> Symbol)
     \<Rightarrow> string \<Rightarrow> CaretPosition
     \<Rightarrow> (ParseTree \<Rightarrow> 'ts \<Rightarrow> CaretPosition \<Rightarrow> TokenPosition option) \<Rightarrow> string list" where
  "getSuggestions S filterTokens structurizrFile visit code caretPosition computeTokenPosition =
     (case structurizrFile code of
        (tokenStream, parser, parseTree) \<Rightarrow>
          (case computeTokenPosition parseTree tokenStream caretPosition of
             None \<Rightarrow> []
           | Some position \<Rightarrow>
               getSuggestionsForParseTree S filterTokens parser parseTree
                 (\<lambda>_. visit parseTree) position))"

definition getSuggestionsK ::
  "KotlinParser \<Rightarrow> antlr4_c3 \<Rightarrow> (string \<Rightarrow> string list \<Rightarrow> string list)
     \<Rightarrow> (string \<Rightarrow> 'ts \<times> Parser \<times> ParseTree) \<Rightarrow> (ParseTree \<Rightarrow> Symbol)
     \<Rightarrow> string \<Rightarrow> CaretPosition
     \<Rightarrow> (ParseTree \<Rightarrow> 'ts \<Rightarrow> CaretPosition \<Rightarrow> TokenPosition option)
     \<Rightarrow> error + string list" where
  "getSuggestionsK K c3 filterTokens kotlinFile visit code caretPosition computeTokenPosition =
     (case kotlinFile code of
        (tokenStream, parser, parseTree) \<Rightarrow>
          (case computeTokenPosition parseTree tokenStream caretPosition of
             None \<Rightarrow> Inr []
           | Some position \<Rightarrow>
               getSuggestionsForParseTreeK K c3 filterTokens parser parseTree
                 (\<lambda>_. visit parseTree) position))"

section \<open>Sample data\<close>

text \<open>
  A small parse tree: a root, a variable read below it, an identifier token below the
  variable read, and a newline token directly below the root.
\<close>

definition rootNode :: ParseTree where
  "rootNode = ParseTree 0 RuleContext None"

definition readNode :: ParseTree where
  "readNode = ParseTree 1 VariableReadContext (Some rootNode)"

definition identifierLeaf :: ParseTree where
  "identifierLeaf = ParseTree 2 (TerminalNode 10) (Some readNode)"

definition newlineLeaf :: ParseTree where
  "newlineLeaf = ParseTree 3 (TerminalNode 1) (Some rootNode)"

text \<open>
  A small symbol table: the table, a function scope in it, and two sibling block scopes
  in the function; one variable in each block, one in the function, two in the table.
\<close>

definition tableSym :: Symbol where
  "tableSym = Symbol 0 [] ScopedSymbol None"

definition functionSym :: Symbol where
  "functionSym = Symbol 1 ''f'' ScopedSymbol (Some tableSym)"

definition blockSym :: Symbol where
  "blockSym = Symbol 2 [] ScopedSymbol (Some functionSym)"

definition siblingSym :: Symbol where
  "siblingSym = Symbol 3 [] ScopedSymbol (Some functionSym)"

definition sampleLocals :: "Symbol \<Rightarrow> Symbol list" where
  "sampleLocals s =
     (if symbolId s = 0 then [Symbol 10 ''foo'' VariableSymbol (Some tableSym),
                              Symbol 11 ''bar'' VariableSymbol (Some tableSym)]
      else if symbolId s = 1 then [Symbol 12 ''arg'' VariableSymbol (Some functionSym)]
      else if symbolId s = 2 then [Symbol 13 ''foo'' VariableSymbol (Some blockSym)]
      else if symbolId s = 3 then [Symbol 14 ''other'' VariableSymbol (Some siblingSym)]
      else [])"

text \<open>
  A library over that table: the local variables of each scope, and the block scope
  attached to the variable-read node (when \<open>attached\<close> is set).
\<close>

definition sampleC3 :: "bool \<Rightarrow> antlr4_c3" where
  "sampleC3 attached =
     \<lparr> getAllSymbolsSync = (\<lambda>s type localOnly. if type = VariableSymbol then sampleLocals s else []),
       symbolWithContextSync =
         (\<lambda>table node. if attached \<and> nodeId node = 1 then Some blockSym else None) \<rparr>"

text \<open>
  A second block scope, whose parent is a symbol of the function that is not a scope; the
  symbols of a table in the order of their declaration; and a library that lists as
  local to a symbol the symbols of the table declared in it.
\<close>

definition wrapperSym :: Symbol where
  "wrapperSym = Symbol 4 ''w'' OtherSymbol (Some functionSym)"

definition nestedSym :: Symbol where
  "nestedSym = Symbol 5 [] ScopedSymbol (Some wrapperSym)"

definition sampleTable :: "Symbol list" where
  "sampleTable =
     [functionSym,
      Symbol 10 ''foo'' VariableSymbol (Some tableSym),
      Symbol 12 ''arg'' VariableSymbol (Some functionSym),
      wrapperSym,
      Symbol 15 ''held'' VariableSymbol (Some wrapperSym),
      nestedSym,
      Symbol 13 ''foo'' VariableSymbol (Some nestedSym),
      siblingSym,
      Symbol 14 ''other'' VariableSymbol (Some siblingSym),
      Symbol 11 ''bar'' VariableSymbol (Some tableSym)]"

definition listingC3 :: "Symbol list \<Rightarrow> antlr4_c3" where
  "listingC3 table =
     \<lparr> getAllSymbolsSync = (\<lambda>s type localOnly. declaredIn table s type),
       symbolWithContextSync = (\<lambda>table node. None) \<rparr>"

text \<open>Token types and rule indices for the two grammars, and a parser over them.\<close>

definition sampleStructurizr :: StructurizrParser where
  "sampleStructurizr = \<lparr> NL = 1, ID = 2 \<rparr>"

definition sampleKotlin :: KotlinParser where
  "sampleKotlin =
     \<lparr> FILE = 3, BinLiteral = 20, BooleanLiteral = 21, CharacterLiteral = 22,
       DoubleLiteral = 23, HexLiteral = 24, IntegerLiteral = 25, LongLiteral = 26,
       NullLiteral = 27, RealLiteral = 28, DelimitedComment = 29, LineComment = 30,
       QUOTE_OPEN = 31, QUOTE_CLOSE = 32, TRIPLE_QUOTE_OPEN = 33, LabelDefinition = 34,
       LabelReference = 35, Identifier = 10, NOT_IN = 8, NOT_IS = 7,
       RULE_variableRead = 50, RULE_suggestArgument = 51 \<rparr>"

definition sampleVocabulary :: "int \<Rightarrow> string option" where
  "sampleVocabulary =
     map_of [(1, ''NL''), (2, ''ID''), (3, ''FILE''), (4, ''VAL''), (5, ''FOO''),
             (7, ''NOT_IS''), (8, ''NOT_IN''), (10, ''Identifier'')]"

definition sampleParser :: "(int \<times> int list) list \<Rightarrow> (int \<times> int list) list \<Rightarrow> Parser" where
  "sampleParser viable reachable =
     \<lparr> getSymbolicName = sampleVocabulary,
       collectCandidates = (\<lambda>ignored preferred i. \<lparr> tokens = viable, rules = reachable \<rparr>) \<rparr>"

section \<open>The prefix filter, proved\<close>

lemma trim_empty_iff: "trim s = [] \<longleftrightarrow> list_all isWhiteSpace s"
proof
  assume "trim s = []"
  then have *: "\<forall>x \<in> set (dropWhile isWhiteSpace s). isWhiteSpace x"
    by (simp add: trim_def)
  show "list_all isWhiteSpace s"
  proof (cases "dropWhile isWhiteSpace s")
    case Nil
    then show ?thesis by (simp add: list_all_iff)
  next
    case (Cons y ys)
    then have "\<not> isWhiteSpace (hd (dropWhile isWhiteSpace s))"
      using hd_dropWhile [of isWhiteSpace s] by simp
    with * Cons show ?thesis by simp
  qed
next
  assume "list_all isWhiteSpace s"
  then have "\<forall>x \<in> set s. isWhiteSpace x"
    by (simp add: list_all_iff)
  then have none_left: "dropWhile isWhiteSpace s = []"
    unfolding dropWhile_eq_Nil_conv .
  show "trim s = []" unfolding trim_def none_left by simp
qed

lemma startsWith_toLowerCase:
  "startsWith (toLowerCase c) (toLowerCase pre) \<longleftrightarrow> startsWithIgnoringCase c pre"
proof (cases "length pre \<le> length c")
  case True
  then have len: "length (take (length pre) c) = length pre" by simp
  have "startsWith (toLowerCase c) (toLowerCase pre)
          \<longleftrightarrow> map toLowerCaseChar (take (length pre) c) = map toLowerCaseChar pre"
    by (simp add: startsWith_def toLowerCase_def take_map)
  also have "\<dots> \<longleftrightarrow> list_all2 equalIgnoringCase (take (length pre) c) pre"
    using len by (simp add: list_all2_conv_all_nth list_eq_iff_nth_eq equalIgnoringCase_def)
  finally show ?thesis using True by (simp add: startsWithIgnoringCase_def)
next
  case False
  then have "length (take (length (toLowerCase pre)) (toLowerCase c)) \<noteq> length (toLowerCase pre)"
    by (simp add: toLowerCase_def)
  then have "\<not> startsWith (toLowerCase c) (toLowerCase pre)"
    unfolding startsWith_def by metis
  with False show ?thesis by (simp add: startsWithIgnoringCase_def)
qed

lemma filterTokens_startsWith_blank:
  "list_all isWhiteSpace pre \<Longrightarrow> filterTokens_startsWith pre candidates = candidates"
  by (simp add: filterTokens_startsWith_def trim_empty_iff)

lemma filterTokens_startsWith_typed:
  "\<not> list_all isWhiteSpace pre \<Longrightarrow>
     filterTokens_startsWith pre candidates = filter (\<lambda>c. startsWithIgnoringCase c pre) candidates"
  by (simp add: filterTokens_startsWith_def trim_empty_iff startsWith_toLowerCase)

lemma trim_utf16_empty_iff: "trim_utf16 s = [] \<longleftrightarrow> list_all isWhiteSpace_utf16 s"
proof
  assume "trim_utf16 s = []"
  then have *: "\<forall>x \<in> set (dropWhile isWhiteSpace_utf16 s). isWhiteSpace_utf16 x"
    by (simp add: trim_utf16_def)
  show "list_all isWhiteSpace_utf16 s"
  proof (cases "dropWhile isWhiteSpace_utf16 s")
    case Nil
    then show ?thesis by (simp add: list_all_iff)
  next
    case (Cons y ys)
    then have "\<not> isWhiteSpace_utf16 (hd (dropWhile isWhiteSpace_utf16 s))"
      using hd_dropWhile [of isWhiteSpace_utf16 s] by simp
    with * Cons show ?thesis by simp
  qed
next
  assume "list_all isWhiteSpace_utf16 s"
  then have "\<forall>x \<in> set s. isWhiteSpace_utf16 x"
    by (simp add: list_all_iff)
  then have none_left: "dropWhile isWhiteSpace_utf16 s = []"
    unfolding dropWhile_eq_Nil_conv .
  show "trim_utf16 s = []" unfolding trim_utf16_def none_left by simp
qed


lemma filterTokens_startsWith_utf16_blank:
  "list_all isWhiteSpace_utf16 pre \<Longrightarrow>
     filterTokens_startsWith_utf16 lowerCase pre candidates = candidates"
  by (simp add: filterTokens_startsWith_utf16_def trim_utf16_empty_iff)

lemma filterTokens_startsWith_utf16_typed:
  "\<not> list_all isWhiteSpace_utf16 pre \<Longrightarrow>
     filterTokens_startsWith_utf16 lowerCase pre candidates
       = filter (\<lambda>c. startsWith (lowerCase c) (lowerCase pre)) candidates"
  by (simp add: filterTokens_startsWith_utf16_def trim_utf16_empty_iff)


text \<open>
  On the strings of code units below 256 the two models of the filter agree: the filter
  over \<^typ>\<open>char\<close> is the filter over UTF-16 strings with the lower-casing above.
\<close>

lemma of_char_int: "(of_char c :: int) = int (of_char c)"
  by (simp add: of_nat_of_char)

lemma of_char_int_less_256: "(of_char c :: int) < 256"
proof -
  have "(of_char c :: nat) < 256" by simp
  then have "int (of_char c) < int 256" by (simp only: of_nat_less_iff)
  then show ?thesis by (simp add: of_nat_of_char)
qed

lemma isWhiteSpace_utf16_of_char:
  "isWhiteSpace_utf16 (of_char c) \<longleftrightarrow> isWhiteSpace c"
proof -
  have "isWhiteSpace_utf16 (int n) \<longleftrightarrow> n \<in> {9, 10, 11, 12, 13, 32, 160}"
    if "n < 256" for n :: nat
    using that by (auto simp: isWhiteSpace_utf16_def)
  from this [of "of_char c"] show ?thesis
    by (simp add: isWhiteSpace_def of_nat_of_char)
qed

lemma toLowerCaseUnit_of_char:
  "toLowerCaseUnit (of_char c) = of_char (toLowerCaseChar c)"
proof -
  define n :: nat where "n = of_char c"
  have small: "n < 256" by (simp add: n_def)
  have unit: "(of_char c :: int) = int n" by (simp add: n_def of_nat_of_char)
  show ?thesis
  proof (cases "(65 \<le> n \<and> n \<le> 90) \<or> (192 \<le> n \<and> n \<le> 222 \<and> n \<noteq> 215)")
    case True
    then have "(n + 32) mod 256 = n + 32" by auto
    then have "(of_char (char_of (n + 32)) :: int) = int (n + 32)"
      by (simp only: of_char_int of_char_of)
    with True show ?thesis
      unfolding unit toLowerCaseUnit_def toLowerCaseChar_def Let_def n_def [symmetric]
      by auto
  next
    case False
    then have "toLowerCaseChar c = c"
      unfolding toLowerCaseChar_def Let_def n_def [symmetric] by (simp only: if_False)
    moreover from False small have "toLowerCaseUnit (int n) = int n"
      by (auto simp: toLowerCaseUnit_def)
    ultimately show ?thesis by (simp add: unit)
  qed
qed

lemma lowerFrom_utf16:
  "lowerFrom seen (utf16 s) = utf16 (toLowerCase s)"
proof (induction s arbitrary: seen)
  case Nil
  then show ?case by (simp add: utf16_def toLowerCase_def)
next
  case (Cons c s)
  have "(of_char c :: int) \<noteq> 0x3A3"
    using of_char_int_less_256 [of c] by linarith
  with Cons show ?case
    by (simp add: utf16_def toLowerCase_def toLowerCaseUnit_of_char)
qed

lemma toLowerCase_utf16_latin1: "toLowerCase_utf16 (utf16 s) = utf16 (toLowerCase s)"
  by (simp add: toLowerCase_utf16_def lowerFrom_utf16)

lemma utf16_inj: "utf16 a = utf16 b \<longleftrightarrow> a = b"
proof -
  have "inj (of_char :: char \<Rightarrow> int)"
    by (rule injI) (simp add: of_char_int)
  then show ?thesis unfolding utf16_def by (rule inj_map_eq_map)
qed

lemma startsWith_utf16: "startsWith (utf16 c) (utf16 pre) \<longleftrightarrow> startsWith c pre"
proof -
  have "take (length (utf16 pre)) (utf16 c) = utf16 (take (length pre) c)"
    by (simp add: utf16_def take_map)
  then show ?thesis unfolding startsWith_def by (simp only: utf16_inj)
qed

lemma list_all_isWhiteSpace_utf16:
  "list_all isWhiteSpace_utf16 (utf16 s) \<longleftrightarrow> list_all isWhiteSpace s"
  by (simp add: utf16_def list_all_iff isWhiteSpace_utf16_of_char)

lemma filterTokens_startsWith_utf16_latin1:
  "filterTokens_startsWith_utf16 toLowerCase_utf16 (utf16 pre) (map utf16 candidates)
     = map utf16 (filterTokens_startsWith pre candidates)"
proof (cases "list_all isWhiteSpace pre")
  case True
  then show ?thesis
    by (simp add: filterTokens_startsWith_utf16_blank list_all_isWhiteSpace_utf16
        filterTokens_startsWith_blank)
next
  case False
  then have "filterTokens_startsWith_utf16 toLowerCase_utf16 (utf16 pre) (map utf16 candidates)
      = filter (\<lambda>c. startsWith (toLowerCase_utf16 c) (toLowerCase_utf16 (utf16 pre)))
          (map utf16 candidates)"
    by (simp add: filterTokens_startsWith_utf16_typed list_all_isWhiteSpace_utf16)
  also have "\<dots> = map utf16 (filter (\<lambda>c. startsWith (toLowerCase c) (toLowerCase pre)) candidates)"
    by (simp add: filter_map comp_def toLowerCase_utf16_latin1 startsWith_utf16)
  also have "\<dots> = map utf16 (filterTokens_startsWith pre candidates)"
    using False by (simp add: filterTokens_startsWith_def trim_empty_iff)
  finally show ?thesis .
qed

section \<open>Facts about the walks and the translators\<close>

lemma variableWalk_present: "\<exists>w. variableWalk (Some v) = Inr (Some w)"
proof (induction "Some v" arbitrary: v rule: variableWalk.induct)
  case (2 i cls up)
  then show ?case by (cases up) auto
qed

lemma suggestVariables_present:
  "context position \<noteq> None \<Longrightarrow>
     suggestVariables c3 ft st position
       = Inr (ft (text position) (map name (visibleSymbols c3 st position)))"
proof -
  assume "context position \<noteq> None"
  then obtain v where "context position = Some v" by blast
  moreover obtain w where "variableWalk (Some v) = Inr (Some w)"
    using variableWalk_present by blast
  ultimately show ?thesis by (simp add: suggestVariables_def)
qed

lemma suggestVariables_absent:
  "context position = None \<Longrightarrow> suggestVariables c3 ft st position = Inl TypeError"
  by (simp add: suggestVariables_def)

lemma foldl_push:
  "foldl (\<lambda>pushed x. pushed @ g x) acc xs = acc @ concat (map g xs)"
  by (induction xs arbitrary: acc) simp_all

lemma tokensS_concat:
  "tokensS S parser candidates = concat (map (\<lambda>(k, _). pushedS S parser k) (tokens candidates))"
proof -
  have "(\<lambda>pushed (k, _ :: int list).
              if k = ID S then pushed
              else (case getSymbolicName parser k of
                      Some symbolicName \<Rightarrow>
                        if symbolicName \<noteq> [] then pushed @ [toLowerCase symbolicName]
                        else pushed
                    | None \<Rightarrow> pushed))
        = (\<lambda>pushed x. pushed @ (\<lambda>(k, _). pushedS S parser k) x)"
    by (auto simp: fun_eq_iff pushedS_def split: option.splits)
  then show ?thesis
    unfolding tokensS_def by (simp only: foldl_push) simp
qed


lemma getSuggestionsForParseTreeK_identifier:
  "identifierPath K (candidatesK K parser position) \<Longrightarrow> context position \<noteq> None \<Longrightarrow>
     getSuggestionsForParseTreeK K c3 ft parser parseTree symbolTableFn position
       = Inr (ft (text position) (map name (visibleSymbols c3 (symbolTableFn ()) position))
              @ ft (textToMatch (ignoredK K) position)
                  (tokensK K parser (candidatesK K parser position)))"
  by (simp add: getSuggestionsForParseTreeK_def suggestVariables_present)

lemma getSuggestionsForParseTreeK_vocabulary:
  "\<not> identifierPath K (candidatesK K parser position) \<Longrightarrow>
     getSuggestionsForParseTreeK K c3 ft parser parseTree symbolTableFn position
       = Inr (ft (textToMatch (ignoredK K) position)
                (tokensK K parser (candidatesK K parser position)))"
  by (simp add: getSuggestionsForParseTreeK_def)

lemma getSuggestionsForParseTreeK_absent:
  "identifierPath K (candidatesK K parser position) \<Longrightarrow> context position = None \<Longrightarrow>
     getSuggestionsForParseTreeK K c3 ft parser parseTree symbolTableFn position = Inl TypeError"
  by (simp add: getSuggestionsForParseTreeK_def suggestVariables_absent)

lemma textToMatch_ignored_terminal:
  "context position = Some node \<Longrightarrow> nodeClass node = TerminalNode type \<Longrightarrow>
     type \<in> set ignored \<Longrightarrow> textToMatch ignored position = []"
  by (simp add: textToMatch_def isIgnoredToken_def)

lemma count_list_filter:
  "count_list (filter P xs) x = (if P x then count_list xs x else 0)"
  by (induction xs) auto

lemma filterTokens_startsWith_filter:
  "filterTokens_startsWith pre candidates = filter (passesFilter pre) candidates"
proof (cases "list_all isWhiteSpace pre")
  case True
  then show ?thesis by (simp add: filterTokens_startsWith_blank passesFilter_def)
next
  case False
  then have "passesFilter pre = (\<lambda>c. startsWithIgnoringCase c pre)"
    by (simp add: passesFilter_def fun_eq_iff)
  with False show ?thesis by (simp add: filterTokens_startsWith_typed)
qed

lemma set_tokensS:
  "set (tokensS S parser candidates)
     = {toLowerCase n | k n. has (tokens candidates) k \<and> k \<noteq> ID S \<and>
                              getSymbolicName parser k = Some n \<and> n \<noteq> []}"
  by (auto simp: tokensS_concat pushedS_def has_def split: if_splits option.splits) force+

lemma getAllSymbolsOfType_top:
  "enclosingScope (symbolParent scope) = None \<Longrightarrow>
     getAllSymbolsOfType c3 scope type = getAllSymbolsSync c3 scope type True"
  by (simp add: getAllSymbolsOfType.simps)

lemma getAllSymbolsOfType_nested:
  "enclosingScope (symbolParent scope) = Some outer \<Longrightarrow>
     getAllSymbolsOfType c3 scope type
       = getAllSymbolsSync c3 scope type True @ getAllSymbolsOfType c3 outer type"
  by (simp add: getAllSymbolsOfType.simps)

lemma pushedS_ID: "pushedS S parser (ID S) = []"
  by (simp add: pushedS_def)

lemma tokensS_without_ID:
  "tokensS S parser (candidates\<lparr>tokens := filter (\<lambda>(k, _). k \<noteq> ID S) (tokens candidates)\<rparr>)
     = tokensS S parser candidates"
proof -
  have "concat (map (\<lambda>(k, _). pushedS S parser k) (filter (\<lambda>(k, _). k \<noteq> ID S) xs))
          = concat (map (\<lambda>(k, _). pushedS S parser k) xs)" for xs :: "(int \<times> int list) list"
    by (induction xs) (auto simp: pushedS_ID)
  then show ?thesis by (simp add: tokensS_concat)
qed

lemma getSuggestionsForParseTree_eq:
  "getSuggestionsForParseTree S ft parser parseTree symbolTableFn position
     = ft (textToMatch (ignoredS S) position) (tokensS S parser (candidatesS S parser position))"
  by (simp add: getSuggestionsForParseTree_def)

lemma set_filterTokens_startsWith:
  "set (filterTokens_startsWith pre candidates) \<subseteq> set candidates"
  by (simp add: filterTokens_startsWith_def)





lemma getSuggestionsForParseTreeK_present:
  "context position \<noteq> None \<Longrightarrow>
     getSuggestionsForParseTreeK K c3 ft parser parseTree symbolTableFn position
       = Inr ((if identifierPath K (candidatesK K parser position)
               then ft (text position) (map name (visibleSymbols c3 (symbolTableFn ()) position))
               else [])
              @ ft (textToMatch (ignoredK K) position)
                  (tokensK K parser (candidatesK K parser position)))"
  by (simp add: getSuggestionsForParseTreeK_identifier getSuggestionsForParseTreeK_vocabulary)


lemma symbolAncestry_size:
  "x \<in> set (symbolAncestry up) \<Longrightarrow> size x < Suc (size_option size up)"
  by (induction up rule: symbolAncestry.induct) auto

lemma enclosingScopes_smaller:
  assumes "x \<in> set (enclosingScopes s)"
  shows "size x < size s"
proof -
  from assms have "x \<in> set (symbolAncestry (symbolParent s))"
    by (simp add: enclosingScopes_def)
  then have "size x < Suc (size_option size (symbolParent s))"
    by (rule symbolAncestry_size)
  also have "\<dots> \<le> size s" by (cases s) simp
  finally show ?thesis .
qed

lemma enclosingScope_first:
  "enclosingScope up
     = (case filter (\<lambda>a. symbolClass a = ScopedSymbol) (symbolAncestry up) of
          [] \<Rightarrow> None
        | b # _ \<Rightarrow> Some b)"
  by (induction up rule: enclosingScope.induct) auto

lemma enclosingScopes_Nil:
  "enclosingScopes s = [] \<Longrightarrow> enclosingScope (symbolParent s) = None"
  by (simp add: enclosingScope_first enclosingScopes_def)

lemma enclosingScopes_Cons:
  "enclosingScopes s = b # rest \<Longrightarrow>
     enclosingScope (symbolParent s) = Some b \<and> enclosingScopes b = rest"
proof -
  have "filter (\<lambda>a. symbolClass a = ScopedSymbol) (symbolAncestry up) = b # rest \<Longrightarrow>
          filter (\<lambda>a. symbolClass a = ScopedSymbol) (symbolAncestry (symbolParent b)) = rest"
    for up
    by (induction up rule: symbolAncestry.induct) (auto split: if_splits)
  then show "enclosingScopes s = b # rest \<Longrightarrow>
     enclosingScope (symbolParent s) = Some b \<and> enclosingScopes b = rest"
    by (simp add: enclosingScope_first enclosingScopes_def)
qed

lemma getAllSymbolsOfType_scopes:
  "getAllSymbolsOfType c3 s kind
     = concat (map (\<lambda>S. getAllSymbolsSync c3 S kind True) (s # enclosingScopes s))"
proof (induction "enclosingScopes s" arbitrary: s)
  case Nil
  then show ?case
    using enclosingScopes_Nil [of s] by (simp add: getAllSymbolsOfType_top)
next
  case (Cons b rest)
  from Cons(2) [symmetric] have step: "enclosingScope (symbolParent s) = Some b"
    and rest: "enclosingScopes b = rest"
    using enclosingScopes_Cons by blast+
  from Cons(1) [of b] rest
  have "getAllSymbolsOfType c3 b kind
          = concat (map (\<lambda>S. getAllSymbolsSync c3 S kind True) (b # enclosingScopes b))"
    by simp
  with step rest Cons(2) [symmetric] show ?case
    by (simp add: getAllSymbolsOfType_nested)
qed

section \<open>The claims\<close>

text \<open>
  C1. The specification says that the prefix used to filter the variable names is the
  typed text when the upward walk from the context node reaches a variable read, and the
  empty string when the walk reaches the root without finding one. The code tests the
  node at which the walk stopped for being present, and that node always is: at the root
  of the sample tree, which is not a variable read and has no parent, with the text
  \<^verbatim>\<open>fo\<close> typed and the variables \<^verbatim>\<open>foo\<close> and \<^verbatim>\<open>bar\<close> visible, the code keeps the
  typed text as the prefix and returns \<^verbatim>\<open>foo\<close> alone, where the empty prefix would
  have returned both names.
\<close>

theorem suggestVariables_root_keeps_typed_text:
  "nodeClass rootNode \<noteq> VariableReadContext \<and> parent rootNode = None \<and>
   map name (visibleSymbols (sampleC3 False) tableSym
               \<lparr>index = 0, context = Some rootNode, text = ''fo''\<rparr>) = [''foo'', ''bar''] \<and>
   suggestVariables (sampleC3 False) filterTokens_startsWith tableSym
     \<lparr>index = 0, context = Some rootNode, text = ''fo''\<rparr> = Inr [''foo''] \<and>
   filterTokens_startsWith [] [''foo'', ''bar''] = [''foo'', ''bar'']"
  by code_simp




text \<open>
  C3. When the candidate set reaches one of the two preferred rules, the result of the
  Kotlin-like translator is the filtered variable names followed by the filtered
  vocabulary tokens, whatever the matcher; with the default matcher each part is a filter
  of its list, so every string that passes keeps all its occurrences, within a part and
  across the two.
\<close>

theorem getSuggestionsForParseTreeK_concatenates:
  assumes "identifierPath K (candidatesK K parser position)"
    and "context position \<noteq> None"
  shows "getSuggestionsForParseTreeK K c3 ft parser parseTree symbolTableFn position
           = Inr (ft (text position) (map name (visibleSymbols c3 (symbolTableFn ()) position))
                  @ ft (textToMatch (ignoredK K) position)
                      (tokensK K parser (candidatesK K parser position))) \<and>
         getSuggestionsForParseTreeK K c3 filterTokens_startsWith parser parseTree
             symbolTableFn position
           = Inr (filter (passesFilter (text position))
                    (map name (visibleSymbols c3 (symbolTableFn ()) position))
                  @ filter (passesFilter (textToMatch (ignoredK K) position))
                      (tokensK K parser (candidatesK K parser position))) \<and>
         (\<forall>s. count_list
                (filterTokens_startsWith (text position)
                   (map name (visibleSymbols c3 (symbolTableFn ()) position))
                 @ filterTokens_startsWith (textToMatch (ignoredK K) position)
                     (tokensK K parser (candidatesK K parser position))) s
              = (if passesFilter (text position) s
                 then count_list (map name (visibleSymbols c3 (symbolTableFn ()) position)) s
                 else 0)
                + (if passesFilter (textToMatch (ignoredK K) position) s
                   then count_list (tokensK K parser (candidatesK K parser position)) s
                   else 0))"
  using assms
  by (simp add: getSuggestionsForParseTreeK_identifier filterTokens_startsWith_filter
      count_list_filter)

theorem getSuggestionsForParseTreeK_concatenates_witness:
  "identifierPath sampleKotlin
     (candidatesK sampleKotlin (sampleParser [(4, []), (5, []), (10, [])] [(50, [])])
        \<lparr>index = 0, context = Some identifierLeaf, text = ''fo''\<rparr>) \<and>
   context \<lparr>index = 0, context = Some identifierLeaf, text = ''fo''\<rparr> \<noteq> None \<and>
   getSuggestionsForParseTreeK sampleKotlin (sampleC3 True) filterTokens_startsWith
     (sampleParser [(4, []), (5, []), (10, [])] [(50, [])]) rootNode (\<lambda>u. tableSym)
     \<lparr>index = 0, context = Some identifierLeaf, text = ''fo''\<rparr>
     = Inr [''foo'', ''foo'', ''foo'']"
proof -
  let ?parser = "sampleParser [(4, []), (5, []), (10, [])] [(50, [])]"
  let ?position = "\<lparr>index = 0, context = Some identifierLeaf, text = ''fo''\<rparr>"
  have a: "identifierPath sampleKotlin (candidatesK sampleKotlin ?parser ?position)"
    by code_simp
  have b: "context ?position \<noteq> None" by simp
  have names: "filter (passesFilter (text ?position))
                 (map name (visibleSymbols (sampleC3 True) ((\<lambda>u. tableSym) ()) ?position))
               = [''foo'', ''foo'']"
    by code_simp
  have vocabulary:
    "filter (passesFilter (textToMatch (ignoredK sampleKotlin) ?position))
       (tokensK sampleKotlin ?parser (candidatesK sampleKotlin ?parser ?position))
     = [''foo'']"
    by code_simp
  from getSuggestionsForParseTreeK_concatenates
         [OF a b, of "sampleC3 True" filterTokens_startsWith rootNode "\<lambda>u. tableSym"]
  have "getSuggestionsForParseTreeK sampleKotlin (sampleC3 True) filterTokens_startsWith
          ?parser rootNode (\<lambda>u. tableSym) ?position
        = Inr (filter (passesFilter (text ?position))
                 (map name (visibleSymbols (sampleC3 True) ((\<lambda>u. tableSym) ()) ?position))
               @ filter (passesFilter (textToMatch (ignoredK sampleKotlin) ?position))
                   (tokensK sampleKotlin ?parser (candidatesK sampleKotlin ?parser ?position)))"
    by blast
  with names vocabulary have "getSuggestionsForParseTreeK sampleKotlin (sampleC3 True)
          filterTokens_startsWith ?parser rootNode (\<lambda>u. tableSym) ?position
        = Inr [''foo'', ''foo'', ''foo'']"
    by (simp only: append.simps)
  with a b show ?thesis by blast
qed

text \<open>
  C4. When the caller's mapper returns nothing for the parse of the source text, both
  entry points return the empty list, whatever the matcher, the parser, the library and
  the symbol-table visitor are: none of them is consulted.
\<close>

theorem getSuggestions_unmapped:
  "((case structurizrFile code of
       (tokenStream, parser, parseTree) \<Rightarrow>
         computeTokenPosition parseTree tokenStream caretPosition) = None
     \<longrightarrow> getSuggestions S ft structurizrFile visit code caretPosition computeTokenPosition = []) \<and>
   ((case kotlinFile code of
       (tokenStream, parser, parseTree) \<Rightarrow>
         computeTokenPositionK parseTree tokenStream caretPosition) = None
     \<longrightarrow> getSuggestionsK K c3 ft kotlinFile visit code caretPosition computeTokenPositionK
           = Inr [])"
  by (auto simp: getSuggestions_def getSuggestionsK_def split: prod.splits)

theorem getSuggestions_unmapped_witness:
  "getSuggestions sampleStructurizr (\<lambda>text candidates. [''called''])
     (\<lambda>code. ((), sampleParser [(4, [])] [], rootNode)) (\<lambda>parseTree. tableSym)
     [] \<lparr>line = 0, column = 0\<rparr> (\<lambda>parseTree tokenStream caretPosition. None) = [] \<and>
   getSuggestionsK sampleKotlin (sampleC3 True) (\<lambda>text candidates. [''called''])
     (\<lambda>code. ((), sampleParser [(4, [])] [(50, [])], rootNode)) (\<lambda>parseTree. tableSym)
     [] \<lparr>line = 0, column = 0\<rparr> (\<lambda>parseTree tokenStream caretPosition. None) = Inr [] \<and>
   getSuggestionsForParseTree sampleStructurizr (\<lambda>text candidates. [''called''])
     (sampleParser [(4, [])] []) rootNode (\<lambda>u. tableSym)
     \<lparr>index = 0, context = None, text = []\<rparr> = [''called'']"
proof -
  from getSuggestions_unmapped
         [where structurizrFile = "\<lambda>code. ((), sampleParser [(4, [])] [], rootNode)"
            and kotlinFile = "\<lambda>code. ((), sampleParser [(4, [])] [(50, [])], rootNode)"
            and code = "[]" and caretPosition = "\<lparr>line = 0, column = 0\<rparr>"
            and computeTokenPosition = "\<lambda>parseTree tokenStream caretPosition. None"
            and computeTokenPositionK = "\<lambda>parseTree tokenStream caretPosition. None"
            and S = sampleStructurizr and K = sampleKotlin and ?c3.0 = "sampleC3 True"
            and ft = "\<lambda>text candidates. [''called'']" and visit = "\<lambda>parseTree. tableSym"]
  have "getSuggestions sampleStructurizr (\<lambda>text candidates. [''called''])
     (\<lambda>code. ((), sampleParser [(4, [])] [], rootNode)) (\<lambda>parseTree. tableSym)
     [] \<lparr>line = 0, column = 0\<rparr> (\<lambda>parseTree tokenStream caretPosition. None) = [] \<and>
   getSuggestionsK sampleKotlin (sampleC3 True) (\<lambda>text candidates. [''called''])
     (\<lambda>code. ((), sampleParser [(4, [])] [(50, [])], rootNode)) (\<lambda>parseTree. tableSym)
     [] \<lparr>line = 0, column = 0\<rparr> (\<lambda>parseTree tokenStream caretPosition. None) = Inr []"
    by simp
  moreover have "getSuggestionsForParseTree sampleStructurizr (\<lambda>text candidates. [''called''])
     (sampleParser [(4, [])] []) rootNode (\<lambda>u. tableSym)
     \<lparr>index = 0, context = None, text = []\<rparr> = [''called'']"
    by (simp add: getSuggestionsForParseTree_def)
  ultimately show ?thesis by blast
qed

text \<open>
  C5. Let the scopes that enclose \<open>A\<close> be \<open>B\<close> and then the global scope \<open>C\<close>, whatever
  symbols that are not scopes stand between them, and let the library list as local to a
  symbol the symbols of the kind declared in it. Then the symbols collected from \<open>A\<close> are
  those listed for \<open>A\<close>, then those for \<open>B\<close>, then those for \<open>C\<close>: every symbol of the kind
  declared in \<open>A\<close>, \<open>B\<close> or \<open>C\<close> is collected, nearer scopes first, and no symbol declared in
  a sibling of \<open>A\<close> (another symbol enclosed by \<open>B\<close> and \<open>C\<close>) is.
\<close>

theorem getAllSymbolsOfType_chain:
  assumes nested: "enclosingScopes A = [B, C]"
    and library: "\<And>S. set (getAllSymbolsSync c3 S kind True)
                        = {x \<in> set table. symbolParent x = Some S \<and> symbolClass x = kind}"
  shows "getAllSymbolsOfType c3 A kind
           = getAllSymbolsSync c3 A kind True @ getAllSymbolsSync c3 B kind True
             @ getAllSymbolsSync c3 C kind True \<and>
         (\<forall>x \<in> set table.
            symbolClass x = kind \<and>
            (symbolParent x = Some A \<or> symbolParent x = Some B \<or> symbolParent x = Some C)
            \<longrightarrow> x \<in> set (getAllSymbolsOfType c3 A kind)) \<and>
         (\<forall>D x. D \<noteq> A \<and> enclosingScopes D = [B, C] \<and> symbolParent x = Some D
            \<longrightarrow> x \<notin> set (getAllSymbolsOfType c3 A kind))"
proof -
  have result: "getAllSymbolsOfType c3 A kind
           = getAllSymbolsSync c3 A kind True @ getAllSymbolsSync c3 B kind True
             @ getAllSymbolsSync c3 C kind True"
    using nested by (simp add: getAllSymbolsOfType_scopes)
  have members: "x \<in> set (getAllSymbolsOfType c3 A kind) \<longleftrightarrow>
      x \<in> set table \<and> symbolClass x = kind \<and>
      (symbolParent x = Some A \<or> symbolParent x = Some B \<or> symbolParent x = Some C)" for x
    unfolding result by (auto simp: library)
  have sibling: "x \<notin> set (getAllSymbolsOfType c3 A kind)"
    if "D \<noteq> A" and "enclosingScopes D = [B, C]" and "symbolParent x = Some D" for D x
  proof -
    from that(2) have "size B < size D" and "size C < size D"
      by (simp_all add: enclosingScopes_smaller)
    then have "D \<noteq> B" and "D \<noteq> C" by auto
    with that(1,3) show ?thesis by (simp add: members)
  qed
  from result members sibling show ?thesis by blast
qed

theorem getAllSymbolsOfType_chain_witness:
  "symbolParent nestedSym = Some wrapperSym \<and> symbolClass wrapperSym \<noteq> ScopedSymbol \<and>
   enclosingScopes nestedSym = [functionSym, tableSym] \<and>
   (\<forall>S. set (getAllSymbolsSync (listingC3 sampleTable) S VariableSymbol True)
          = {x \<in> set sampleTable. symbolParent x = Some S \<and> symbolClass x = VariableSymbol}) \<and>
   map name (getAllSymbolsOfType (listingC3 sampleTable) nestedSym VariableSymbol)
     = [''foo'', ''arg'', ''foo'', ''bar''] \<and>
   siblingSym \<noteq> nestedSym \<and> enclosingScopes siblingSym = [functionSym, tableSym] \<and>
   Symbol 14 ''other'' VariableSymbol (Some siblingSym) \<in> set sampleTable \<and>
   Symbol 14 ''other'' VariableSymbol (Some siblingSym)
     \<notin> set (getAllSymbolsOfType (listingC3 sampleTable) nestedSym VariableSymbol)"
proof -
  have up: "symbolParent nestedSym = Some wrapperSym"
    and other: "symbolClass wrapperSym \<noteq> ScopedSymbol"
    by (simp_all add: nestedSym_def wrapperSym_def)
  have nested: "enclosingScopes nestedSym = [functionSym, tableSym]"
    by (simp add: enclosingScopes_def nestedSym_def wrapperSym_def functionSym_def tableSym_def)
  have library: "set (getAllSymbolsSync (listingC3 sampleTable) S VariableSymbol True)
      = {x \<in> set sampleTable. symbolParent x = Some S \<and> symbolClass x = VariableSymbol}" for S
    by (simp add: listingC3_def declaredIn_def)
  note chain = getAllSymbolsOfType_chain [OF nested library]
  have listed:
    "getAllSymbolsSync (listingC3 sampleTable) nestedSym VariableSymbol True
       = [Symbol 13 ''foo'' VariableSymbol (Some nestedSym)]"
    "getAllSymbolsSync (listingC3 sampleTable) functionSym VariableSymbol True
       = [Symbol 12 ''arg'' VariableSymbol (Some functionSym)]"
    "getAllSymbolsSync (listingC3 sampleTable) tableSym VariableSymbol True
       = [Symbol 10 ''foo'' VariableSymbol (Some tableSym),
          Symbol 11 ''bar'' VariableSymbol (Some tableSym)]"
    by (simp_all add: listingC3_def declaredIn_def sampleTable_def nestedSym_def wrapperSym_def
        functionSym_def tableSym_def siblingSym_def)
  from chain have "getAllSymbolsOfType (listingC3 sampleTable) nestedSym VariableSymbol
      = getAllSymbolsSync (listingC3 sampleTable) nestedSym VariableSymbol True
        @ getAllSymbolsSync (listingC3 sampleTable) functionSym VariableSymbol True
        @ getAllSymbolsSync (listingC3 sampleTable) tableSym VariableSymbol True"
    by blast
  then have names: "map name (getAllSymbolsOfType (listingC3 sampleTable) nestedSym VariableSymbol)
      = [''foo'', ''arg'', ''foo'', ''bar'']"
    by (simp add: listed)
  have differ: "siblingSym \<noteq> nestedSym"
    by (simp add: siblingSym_def nestedSym_def)
  have beside: "enclosingScopes siblingSym = [functionSym, tableSym]"
    by (simp add: enclosingScopes_def siblingSym_def functionSym_def tableSym_def)
  have present: "Symbol 14 ''other'' VariableSymbol (Some siblingSym) \<in> set sampleTable"
    by (simp add: sampleTable_def)
  from chain differ beside
  have absent: "Symbol 14 ''other'' VariableSymbol (Some siblingSym)
      \<notin> set (getAllSymbolsOfType (listingC3 sampleTable) nestedSym VariableSymbol)"
    by (metis Symbol.sel(4))
  from up other nested library names differ beside present absent show ?thesis by blast
qed

text \<open>
  C6. In both translators, when the context node is a terminal whose token type is
  ignored, the text matched against the vocabulary tokens is empty whatever was typed;
  with the default matcher all the tokens are returned. The newline token of the DSL is
  ignored, and so is every token type of the Kotlin-like grammar below the first keyword.
\<close>

theorem ignored_terminal_matches_empty_text:
  assumes "context position = Some node" and "nodeClass node = TerminalNode type"
  shows "(type \<in> set (ignoredS S) \<longrightarrow>
            textToMatch (ignoredS S) position = [] \<and>
            getSuggestionsForParseTree S ft parser parseTree symbolTableFn position
              = ft [] (tokensS S parser (candidatesS S parser position)) \<and>
            getSuggestionsForParseTree S filterTokens_startsWith parser parseTree symbolTableFn
                position
              = tokensS S parser (candidatesS S parser position)) \<and>
         (type \<in> set (ignoredK K) \<longrightarrow>
            textToMatch (ignoredK K) position = [] \<and>
            getSuggestionsForParseTreeK K c3 ft parserK parseTree symbolTableFn position
              = Inr ((if identifierPath K (candidatesK K parserK position)
                      then ft (text position)
                             (map name (visibleSymbols c3 (symbolTableFn ()) position))
                      else [])
                     @ ft [] (tokensK K parserK (candidatesK K parserK position))) \<and>
            getSuggestionsForParseTreeK K c3 filterTokens_startsWith parserK parseTree
                symbolTableFn position
              = Inr ((if identifierPath K (candidatesK K parserK position)
                      then filterTokens_startsWith (text position)
                             (map name (visibleSymbols c3 (symbolTableFn ()) position))
                      else [])
                     @ tokensK K parserK (candidatesK K parserK position))) \<and>
         NL S \<in> set (ignoredS S) \<and>
         (0 \<le> type \<and> type < FILE K \<longrightarrow> type \<in> set (ignoredK K))"
proof -
  have present: "context position \<noteq> None" using assms(1) by simp
  have blank: "filterTokens_startsWith [] cs = cs" for cs
    by (simp add: filterTokens_startsWith_blank)
  have dsl: "textToMatch (ignoredS S) position = [] \<and>
      getSuggestionsForParseTree S ft parser parseTree symbolTableFn position
        = ft [] (tokensS S parser (candidatesS S parser position)) \<and>
      getSuggestionsForParseTree S filterTokens_startsWith parser parseTree symbolTableFn
          position
        = tokensS S parser (candidatesS S parser position)"
    if "type \<in> set (ignoredS S)"
    using textToMatch_ignored_terminal [OF assms that]
    by (simp add: getSuggestionsForParseTree_eq blank)
  have kotlin: "textToMatch (ignoredK K) position = [] \<and>
      getSuggestionsForParseTreeK K c3 ft parserK parseTree symbolTableFn position
        = Inr ((if identifierPath K (candidatesK K parserK position)
                then ft (text position)
                       (map name (visibleSymbols c3 (symbolTableFn ()) position))
                else [])
               @ ft [] (tokensK K parserK (candidatesK K parserK position))) \<and>
      getSuggestionsForParseTreeK K c3 filterTokens_startsWith parserK parseTree
          symbolTableFn position
        = Inr ((if identifierPath K (candidatesK K parserK position)
                then filterTokens_startsWith (text position)
                       (map name (visibleSymbols c3 (symbolTableFn ()) position))
                else [])
               @ tokensK K parserK (candidatesK K parserK position))"
    if "type \<in> set (ignoredK K)"
    using textToMatch_ignored_terminal [OF assms that] present
    by (simp add: getSuggestionsForParseTreeK_present blank)
  have range: "0 \<le> type \<and> type < FILE K \<longrightarrow> type \<in> set (ignoredK K)"
    by (simp add: ignoredK_def)
  have nl: "NL S \<in> set (ignoredS S)" by (simp add: ignoredS_def)
  from dsl kotlin range nl show ?thesis by blast
qed

theorem ignored_terminal_matches_empty_text_witness:
  "context \<lparr>index = 0, context = Some newlineLeaf, text = ''fo''\<rparr> = Some newlineLeaf \<and>
   nodeClass newlineLeaf = TerminalNode 1 \<and>
   1 \<in> set (ignoredS sampleStructurizr) \<and> 1 \<in> set (ignoredK sampleKotlin) \<and>
   getSuggestionsForParseTree sampleStructurizr filterTokens_startsWith
     (sampleParser [(4, []), (2, []), (5, [])] []) rootNode (\<lambda>u. tableSym)
     \<lparr>index = 0, context = Some newlineLeaf, text = ''fo''\<rparr> = [''val'', ''foo''] \<and>
   getSuggestionsForParseTreeK sampleKotlin (sampleC3 True) filterTokens_startsWith
     (sampleParser [(4, []), (10, []), (5, [])] []) rootNode (\<lambda>u. tableSym)
     \<lparr>index = 0, context = Some newlineLeaf, text = ''fo''\<rparr> = Inr [''val'', ''foo'']"
proof -
  let ?position = "\<lparr>index = 0, context = Some newlineLeaf, text = ''fo''\<rparr>"
  have a: "context ?position = Some newlineLeaf" by simp
  have b: "nodeClass newlineLeaf = TerminalNode 1" by (simp add: newlineLeaf_def)
  have s: "1 \<in> set (ignoredS sampleStructurizr)" by code_simp
  have k: "1 \<in> set (ignoredK sampleKotlin)" by code_simp
  have toksS: "tokensS sampleStructurizr (sampleParser [(4, []), (2, []), (5, [])] [])
                 (candidatesS sampleStructurizr (sampleParser [(4, []), (2, []), (5, [])] [])
                    ?position) = [''val'', ''foo'']"
    by code_simp
  have toksK: "tokensK sampleKotlin (sampleParser [(4, []), (10, []), (5, [])] [])
                 (candidatesK sampleKotlin (sampleParser [(4, []), (10, []), (5, [])] [])
                    ?position) = [''val'', ''foo'']"
    by code_simp
  have path: "\<not> identifierPath sampleKotlin
                 (candidatesK sampleKotlin (sampleParser [(4, []), (10, []), (5, [])] [])
                    ?position)"
    by code_simp
  note main = ignored_terminal_matches_empty_text
         [OF a b, of sampleStructurizr filterTokens_startsWith
             "sampleParser [(4, []), (2, []), (5, [])] []" rootNode "\<lambda>u. tableSym"
             sampleKotlin "sampleC3 True" "sampleParser [(4, []), (10, []), (5, [])] []"]
  from main s
  have "getSuggestionsForParseTree sampleStructurizr filterTokens_startsWith
          (sampleParser [(4, []), (2, []), (5, [])] []) rootNode (\<lambda>u. tableSym) ?position
        = tokensS sampleStructurizr (sampleParser [(4, []), (2, []), (5, [])] [])
            (candidatesS sampleStructurizr (sampleParser [(4, []), (2, []), (5, [])] [])
               ?position)"
    by blast
  with toksS
  have dsl: "getSuggestionsForParseTree sampleStructurizr filterTokens_startsWith
          (sampleParser [(4, []), (2, []), (5, [])] []) rootNode (\<lambda>u. tableSym) ?position
        = [''val'', ''foo'']"
    by simp
  from main k
  have "getSuggestionsForParseTreeK sampleKotlin (sampleC3 True) filterTokens_startsWith
          (sampleParser [(4, []), (10, []), (5, [])] []) rootNode (\<lambda>u. tableSym) ?position
        = Inr ((if identifierPath sampleKotlin
                     (candidatesK sampleKotlin (sampleParser [(4, []), (10, []), (5, [])] [])
                        ?position)
                then filterTokens_startsWith (text ?position)
                       (map name (visibleSymbols (sampleC3 True) ((\<lambda>u. tableSym) ())
                                    ?position))
                else [])
               @ tokensK sampleKotlin (sampleParser [(4, []), (10, []), (5, [])] [])
                   (candidatesK sampleKotlin (sampleParser [(4, []), (10, []), (5, [])] [])
                      ?position))"
    by blast
  with toksK path
  have kotlin: "getSuggestionsForParseTreeK sampleKotlin (sampleC3 True) filterTokens_startsWith
          (sampleParser [(4, []), (10, []), (5, [])] []) rootNode (\<lambda>u. tableSym) ?position
        = Inr [''val'', ''foo'']"
    by simp
  from a b s k dsl kotlin show ?thesis by blast
qed

text \<open>
  C7. The DSL translator returns what the matcher makes of the vocabulary tokens alone:
  the result does not depend on the symbol table, with the default matcher every
  suggestion is a vocabulary token, and the vocabulary tokens are the lowercased symbolic
  names of the viable token types other than the identifier type that have a (non-empty)
  symbolic name; entries of the identifier type contribute nothing.
\<close>

theorem getSuggestionsForParseTree_vocabulary_only:
  "getSuggestionsForParseTree S ft parser parseTree symbolTableFn position
     = ft (textToMatch (ignoredS S) position)
         (tokensS S parser (candidatesS S parser position)) \<and>
   getSuggestionsForParseTree S ft parser parseTree symbolTableFn' position
     = getSuggestionsForParseTree S ft parser parseTree symbolTableFn position \<and>
   set (getSuggestionsForParseTree S filterTokens_startsWith parser parseTree symbolTableFn
          position)
     \<subseteq> set (tokensS S parser (candidatesS S parser position)) \<and>
   set (tokensS S parser candidates)
     = {toLowerCase n | k n. has (tokens candidates) k \<and> k \<noteq> ID S \<and>
                              getSymbolicName parser k = Some n \<and> n \<noteq> []} \<and>
   tokensS S parser (candidates\<lparr>tokens := filter (\<lambda>(k, _). k \<noteq> ID S) (tokens candidates)\<rparr>)
     = tokensS S parser candidates"
  using set_tokensS [of S parser candidates] tokensS_without_ID [of S parser candidates]
  by (simp add: getSuggestionsForParseTree_eq set_filterTokens_startsWith)

theorem getSuggestionsForParseTree_vocabulary_only_witness:
  "getSuggestionsForParseTree sampleStructurizr filterTokens_startsWith
     (sampleParser [(4, []), (2, []), (6, []), (5, []), (3, [])] []) rootNode (\<lambda>u. tableSym)
     \<lparr>index = 0, context = Some rootNode, text = ''f''\<rparr> = [''foo'', ''file''] \<and>
   tokensS sampleStructurizr (sampleParser [] [])
     \<lparr>tokens = [(4, []), (2, []), (6, []), (5, []), (3, [])], rules = []\<rparr>
     = [''val'', ''foo'', ''file'']"
proof -
  let ?parser = "sampleParser [(4, []), (2, []), (6, []), (5, []), (3, [])] []"
  let ?position = "\<lparr>index = 0, context = Some rootNode, text = ''f''\<rparr>"
  have viable: "tokensS sampleStructurizr ?parser (candidatesS sampleStructurizr ?parser ?position)
                  = [''val'', ''foo'', ''file'']"
    by code_simp
  have typed: "textToMatch (ignoredS sampleStructurizr) ?position = ''f''"
    by code_simp
  have kept: "filterTokens_startsWith ''f'' [''val'', ''foo'', ''file''] = [''foo'', ''file'']"
    by code_simp
  from getSuggestionsForParseTree_vocabulary_only
         [where S = sampleStructurizr and ft = filterTokens_startsWith and parser = ?parser
            and parseTree = rootNode and symbolTableFn = "\<lambda>u. tableSym"
            and position = ?position]
  have "getSuggestionsForParseTree sampleStructurizr filterTokens_startsWith ?parser rootNode
          (\<lambda>u. tableSym) ?position
        = filterTokens_startsWith (textToMatch (ignoredS sampleStructurizr) ?position)
            (tokensS sampleStructurizr ?parser
               (candidatesS sampleStructurizr ?parser ?position))"
    by blast
  with viable typed kept
  have result: "getSuggestionsForParseTree sampleStructurizr filterTokens_startsWith ?parser
                  rootNode (\<lambda>u. tableSym) ?position = [''foo'', ''file'']"
    by simp
  have pushed: "tokensS sampleStructurizr (sampleParser [] [])
                  \<lparr>tokens = [(4, []), (2, []), (6, []), (5, []), (3, [])], rules = []\<rparr>
                = [''val'', ''foo'', ''file'']"
    by code_simp
  from result pushed show ?thesis by blast
qed



text \<open>
  C9. The specification says that no input makes the core raise, also a token position
  whose context node is absent. With an absent context and a candidate set that reaches
  the variable-read rule, the loop of \<^verbatim>\<open>suggestVariables\<close> reads the parent of
  \<^verbatim>\<open>undefined\<close>, and the Kotlin-like entry point raises a \<^verbatim>\<open>TypeError\<close>.
\<close>

theorem getSuggestionsK_absent_context_raises:
  "getSuggestionsK sampleKotlin (sampleC3 True) filterTokens_startsWith
     (\<lambda>code. ((), sampleParser [(4, [])] [(50, [])], rootNode)) (\<lambda>parseTree. tableSym)
     ''val y = '' \<lparr>line = 1, column = 8\<rparr>
     (\<lambda>parseTree tokenStream caretPosition. Some \<lparr>index = 4, context = None, text = []\<rparr>)
     = Inl TypeError"
  by code_simp

text \<open>
  C10. When the context node is an ignored terminal and the candidate set reaches a
  preferred rule, the walk from the context node ends on a node, the variable names are
  filtered with the typed text, and only the vocabulary tokens are matched against the
  empty text.
\<close>

theorem identifier_prefix_on_ignored_terminal:
  assumes "context position = Some node" and "nodeClass node = TerminalNode type"
    and "type \<in> set (ignoredK K)"
    and "identifierPath K (candidatesK K parser position)"
  shows "(\<exists>variable. variableWalk (context position) = Inr (Some variable)) \<and>
         suggestVariables c3 ft (symbolTableFn ()) position
           = Inr (ft (text position)
                    (map name (visibleSymbols c3 (symbolTableFn ()) position))) \<and>
         getSuggestionsForParseTreeK K c3 ft parser parseTree symbolTableFn position
           = Inr (ft (text position) (map name (visibleSymbols c3 (symbolTableFn ()) position))
                  @ ft [] (tokensK K parser (candidatesK K parser position)))"
proof -
  have present: "context position \<noteq> None" using assms(1) by simp
  have "\<exists>variable. variableWalk (context position) = Inr (Some variable)"
    using assms(1) variableWalk_present [of node] by simp
  moreover have "textToMatch (ignoredK K) position = []"
    using assms(1-3) by (rule textToMatch_ignored_terminal)
  ultimately show ?thesis
    using present assms(4)
    by (simp add: suggestVariables_present getSuggestionsForParseTreeK_identifier)
qed

theorem identifier_prefix_on_ignored_terminal_witness:
  "context \<lparr>index = 0, context = Some newlineLeaf, text = ''fo''\<rparr> = Some newlineLeaf \<and>
   nodeClass newlineLeaf = TerminalNode 1 \<and>
   1 \<in> set (ignoredK sampleKotlin) \<and>
   identifierPath sampleKotlin
     (candidatesK sampleKotlin (sampleParser [(4, []), (10, []), (5, [])] [(51, [])])
        \<lparr>index = 0, context = Some newlineLeaf, text = ''fo''\<rparr>) \<and>
   getSuggestionsForParseTreeK sampleKotlin (sampleC3 True) filterTokens_startsWith
     (sampleParser [(4, []), (10, []), (5, [])] [(51, [])]) rootNode (\<lambda>u. tableSym)
     \<lparr>index = 0, context = Some newlineLeaf, text = ''fo''\<rparr>
     = Inr [''foo'', ''val'', ''foo'']"
proof -
  let ?position = "\<lparr>index = 0, context = Some newlineLeaf, text = ''fo''\<rparr>"
  let ?parser = "sampleParser [(4, []), (10, []), (5, [])] [(51, [])]"
  have a: "context ?position = Some newlineLeaf" by simp
  have b: "nodeClass newlineLeaf = TerminalNode 1" by (simp add: newlineLeaf_def)
  have k: "1 \<in> set (ignoredK sampleKotlin)" by code_simp
  have p: "identifierPath sampleKotlin (candidatesK sampleKotlin ?parser ?position)"
    by code_simp
  have names: "filterTokens_startsWith (text ?position)
                 (map name (visibleSymbols (sampleC3 True) ((\<lambda>u. tableSym) ()) ?position))
               = [''foo'']"
    by code_simp
  have vocabulary:
    "filterTokens_startsWith [] (tokensK sampleKotlin ?parser
                                   (candidatesK sampleKotlin ?parser ?position))
       = [''val'', ''foo'']"
    by code_simp
  from identifier_prefix_on_ignored_terminal
         [OF a b k p, of "sampleC3 True" filterTokens_startsWith "\<lambda>u. tableSym" rootNode]
  have "getSuggestionsForParseTreeK sampleKotlin (sampleC3 True) filterTokens_startsWith
          ?parser rootNode (\<lambda>u. tableSym) ?position
        = Inr (filterTokens_startsWith (text ?position)
                 (map name (visibleSymbols (sampleC3 True) ((\<lambda>u. tableSym) ()) ?position))
               @ filterTokens_startsWith [] (tokensK sampleKotlin ?parser
                                               (candidatesK sampleKotlin ?parser ?position)))"
    by blast
  with names vocabulary have "getSuggestionsForParseTreeK sampleKotlin (sampleC3 True)
          filterTokens_startsWith ?parser rootNode (\<lambda>u. tableSym) ?position
        = Inr [''foo'', ''val'', ''foo'']"
    by (simp only: append.simps)
  with a b k p show ?thesis by blast
qed

section \<open>Further properties of the code\<close>

text \<open>
  The Kotlin-like translator raises exactly when the candidate set reaches a preferred
  rule and the token position has no context node; in every other case it returns a list.
\<close>

theorem getSuggestionsForParseTreeK_raises_iff:
  "(\<exists>e. getSuggestionsForParseTreeK K c3 ft parser parseTree symbolTableFn position = Inl e)
     \<longleftrightarrow> identifierPath K (candidatesK K parser position) \<and> context position = None"
proof (cases "context position = None")
  case True
  then show ?thesis
    by (cases "identifierPath K (candidatesK K parser position)")
       (simp_all add: getSuggestionsForParseTreeK_absent getSuggestionsForParseTreeK_vocabulary)
next
  case False
  then show ?thesis by (simp add: getSuggestionsForParseTreeK_present)
qed

text \<open>
  \<^verbatim>\<open>getScope\<close> returns the symbol attached to the nearest node, among the context node and
  its ancestors, that has one, and nothing when none has.
\<close>

theorem getScope_first_attached:
  "getScope c3 node symbolTable
     = (case List.map_filter (symbolWithContextSync c3 symbolTable) (ancestry node) of
          [] \<Rightarrow> None
        | scope # _ \<Rightarrow> Some scope)"
  by (induction c3 node symbolTable rule: getScope.induct)
     (auto simp: List.map_filter_simps split: option.splits)

end
